theory Spec2Isabelle
  imports Main "HOL-Library.Multiset" "HOL-Library.AList"
begin

section \<open>Python values shared by the three modules\<close>

text \<open>
  A Python \<open>bytes\<close> object is its list of octets. A Python \<open>str\<close> is represented by
  the octets of its UTF-8 encoding, so \<open>str.encode("utf-8")\<close> is the identity and
  \<open>bytes.decode("utf-8")\<close> is the identity on well-formed UTF-8 and raises otherwise.
\<close>

type_synonym bytes = string
type_synonym str = string

text \<open>
  The exceptions the modelled code raises or lets through. \<open>SystemExit\<close> and
  \<open>KeyboardInterrupt\<close> derive from \<open>BaseException\<close> only; every other one is a
  subclass of \<open>Exception\<close>, which is what \<open>except Exception\<close> catches.
\<close>

datatype pyexc =
    SystemExit nat
  | KeyboardInterrupt
  | IndexError
  | KeyError str
  | ValueError
  | UnicodeDecodeError
  | LookupError
  | MalformedEnvelope
  | KlioMissingConfiguration

fun is_Exception :: "pyexc \<Rightarrow> bool" where
  "is_Exception (SystemExit _) = False"
| "is_Exception KeyboardInterrupt = False"
| "is_Exception _ = True"

text \<open>Truthiness of a value that is \<open>None\<close> or a \<open>str\<close>: \<open>None\<close> and \<open>""\<close> are falsy.\<close>

fun truthy :: "str option \<Rightarrow> bool" where
  "truthy None = False"
| "truthy (Some s) = (s \<noteq> [])"

text \<open>\<open>os.path.join(a, b)\<close> of \<open>posixpath\<close>, for two arguments.\<close>

definition startswith_sep :: "str \<Rightarrow> bool" where
  "startswith_sep b = (case b of [] \<Rightarrow> False | c # _ \<Rightarrow> c = CHR ''/'')"

definition endswith_sep :: "str \<Rightarrow> bool" where
  "endswith_sep a = (case rev a of [] \<Rightarrow> False | c # _ \<Rightarrow> c = CHR ''/'')"

definition path_join :: "str \<Rightarrow> str \<Rightarrow> str" where
  "path_join a b =
     (if startswith_sep b then b
      else if a = [] \<or> endswith_sep a then a @ b
      else a @ ''/'' @ b)"

text \<open>
  \<open>bytes.decode("utf-8")\<close> (strict): well-formed UTF-8 only, that is no overlong form,
  no surrogate and nothing above U+10FFFF.
\<close>

definition in_range :: "nat \<Rightarrow> nat \<Rightarrow> char \<Rightarrow> bool" where
  "in_range lo hi c = (lo \<le> of_char c \<and> of_char c \<le> hi)"

fun utf8_valid :: "bytes \<Rightarrow> bool" where
  "utf8_valid [] = True"
| "utf8_valid (a # rest) =
     (if in_range 0x00 0x7F a then utf8_valid rest
      else if in_range 0xC2 0xDF a then
        (case rest of b # r \<Rightarrow> in_range 0x80 0xBF b \<and> utf8_valid r | _ \<Rightarrow> False)
      else if in_range 0xE0 0xEF a then
        (case rest of
           b # c # r \<Rightarrow>
             in_range (if a = CHR 0xE0 then 0xA0 else 0x80) (if a = CHR 0xED then 0x9F else 0xBF) b
             \<and> in_range 0x80 0xBF c \<and> utf8_valid r
         | _ \<Rightarrow> False)
      else if in_range 0xF0 0xF4 a then
        (case rest of
           b # c # d # r \<Rightarrow>
             in_range (if a = CHR 0xF0 then 0x90 else 0x80) (if a = CHR 0xF4 then 0x8F else 0xBF) b
             \<and> in_range 0x80 0xBF c \<and> in_range 0x80 0xBF d \<and> utf8_valid r
         | _ \<Rightarrow> False)
      else False)"

definition decode_utf8 :: "bytes \<Rightarrow> pyexc + str" where
  "decode_utf8 b = (if utf8_valid b then Inr b else Inl UnicodeDecodeError)"

text \<open>\<open>str(index)\<close> of a non-negative integer: its decimal digits.\<close>

fun str_of_nat :: "nat \<Rightarrow> str" where
  "str_of_nat n =
     (if n < 10 then [''0123456789'' ! n]
      else str_of_nat (n div 10) @ [''0123456789'' ! (n mod 10)])"

section \<open>\<open>klio/transforms/io.py\<close>: \<open>KlioReadFromAvro._get_file_pattern\<close>\<close>

text \<open>
  \<open>any([file_pattern, location])\<close> and \<open>all([file_pattern, location])\<close> test
  truthiness; \<open>file_pattern is None\<close> tests identity with \<open>None\<close>. The returned value is
  whatever \<open>file_pattern\<close> is bound to at the end.
\<close>

definition get_file_pattern :: "str option \<Rightarrow> str option \<Rightarrow> bool \<Rightarrow> pyexc + str option" where
  "get_file_pattern file_pattern location show_unpublished =
     (if \<not> (truthy file_pattern \<or> truthy location) then Inl KlioMissingConfiguration
      else if truthy file_pattern \<and> truthy location
        then Inr (Some (path_join (the location) (the file_pattern)))
      else if file_pattern = None then Inr location
      else Inr file_pattern)"

section \<open>The message envelope\<close>

text \<open>
  Modelled from the spec: the envelope. The message type \<open>klio_pb2.KlioMessage\<close> is not
  under \<open>src/\<close>. Its fields here are the ones the code under \<open>src/\<close> reads or writes
  (\<open>version\<close>, \<open>data.v2.element\<close>, \<open>data.v2.payload\<close>) and the metadata of sections 3, 4.4
  and 6 of the spec: the \<open>ping\<close> and \<open>force\<close> markers, and the recipients and the audit
  trail, both opaque.
\<close>

record klio_message =
  version :: nat
  element :: bytes
  payload :: bytes
  ping :: bool
  force :: bool
  recipients :: bytes
  audit_trail :: bytes

text \<open>Modelled from the spec: \<open>klio_pb2.KlioMessage()\<close>, every field at its default.\<close>

definition KlioMessage :: klio_message where
  "KlioMessage = \<lparr>version = 0, element = [], payload = [], ping = False, force = False,
                   recipients = [], audit_trail = []\<rparr>"

text \<open>
  Modelled from the spec: the Envelope Codec. The generated module \<open>klio_pb2\<close> and its
  \<open>SerializeToString\<close>/\<open>ParseFromString\<close> are not under \<open>src/\<close>. The spec (sections 3, 4.1
  and 6) describes a length-prefixed binary form of version, payload and metadata, an
  \<open>encode\<close> that is total, and a \<open>decode\<close> that fails with \<open>MalformedEnvelope\<close> on anything
  that is not such a form. Integers are base-128 varints, byte fields carry their length as
  a varint prefix, flags are one octet, and \<open>decode\<close> accepts no trailing octet.
\<close>

fun encode_varint :: "nat \<Rightarrow> bytes" where
  "encode_varint n =
     (if n < 128 then [char_of n] else char_of (128 + n mod 128) # encode_varint (n div 128))"

declare encode_varint.simps [simp del]

text \<open>Modelled from the spec: reading a varint; \<open>None\<close> when the octets end inside it.\<close>

fun decode_varint :: "bytes \<Rightarrow> (nat \<times> bytes) option" where
  "decode_varint [] = None"
| "decode_varint (c # cs) =
     (if of_char c < (128::nat) then Some (of_char c, cs)
      else (case decode_varint cs of
              None \<Rightarrow> None
            | Some (m, rest) \<Rightarrow> Some (of_char c - 128 + 128 * m, rest)))"

text \<open>Modelled from the spec: a length-prefixed byte field.\<close>

definition encode_bytes :: "bytes \<Rightarrow> bytes" where
  "encode_bytes bs = encode_varint (length bs) @ bs"

text \<open>Modelled from the spec: reading a length-prefixed byte field; \<open>None\<close> when fewer
  octets are left than the prefix announces.\<close>

definition decode_bytes :: "bytes \<Rightarrow> (bytes \<times> bytes) option" where
  "decode_bytes cs =
     (case decode_varint cs of
        None \<Rightarrow> None
      | Some (n, rest) \<Rightarrow> if length rest < n then None else Some (take n rest, drop n rest))"

text \<open>Modelled from the spec: a flag as one octet, 1 or 0.\<close>

definition encode_bool :: "bool \<Rightarrow> bytes" where
  "encode_bool b = [if b then char_of (1::nat) else char_of (0::nat)]"

text \<open>Modelled from the spec: reading a flag; \<open>None\<close> on any octet other than 0 and 1.\<close>

fun decode_bool :: "bytes \<Rightarrow> (bool \<times> bytes) option" where
  "decode_bool [] = None"
| "decode_bool (c # cs) =
     (if of_char c = (0::nat) then Some (False, cs)
      else if of_char c = (1::nat) then Some (True, cs)
      else None)"

text \<open>Modelled from the spec: \<open>encode\<close> of section 4.1, the fields in a fixed order.\<close>

definition encode :: "klio_message \<Rightarrow> bytes" where
  "encode e =
     encode_varint (version e) @ encode_bytes (element e) @ encode_bytes (payload e)
     @ encode_bool (ping e) @ encode_bool (force e)
     @ encode_bytes (recipients e) @ encode_bytes (audit_trail e)"

text \<open>Modelled from the spec: reading the fields in that order, and what is left after them.\<close>

definition parse_fields :: "bytes \<Rightarrow> (klio_message \<times> bytes) option" where
  "parse_fields raw =
     Option.bind (decode_varint raw) (\<lambda>(v, r1).
     Option.bind (decode_bytes r1) (\<lambda>(el, r2).
     Option.bind (decode_bytes r2) (\<lambda>(pl, r3).
     Option.bind (decode_bool r3) (\<lambda>(pg, r4).
     Option.bind (decode_bool r4) (\<lambda>(fc, r5).
     Option.bind (decode_bytes r5) (\<lambda>(rc, r6).
     Option.bind (decode_bytes r6) (\<lambda>(au, r7).
       Some (\<lparr>version = v, element = el, payload = pl, ping = pg, force = fc,
              recipients = rc, audit_trail = au\<rparr>, r7))))))))"

text \<open>Modelled from the spec: \<open>decode\<close> of section 4.1; it fails with \<open>MalformedEnvelope\<close>.\<close>

definition decode :: "bytes \<Rightarrow> pyexc + klio_message" where
  "decode raw =
     (case parse_fields raw of
        None \<Rightarrow> Inl MalformedEnvelope
      | Some (e, rest) \<Rightarrow> if rest = [] then Inr e else Inl MalformedEnvelope)"

section \<open>\<open>klio/transforms/io.py\<close>: the text source and the text sink\<close>

text \<open>
  \<open>_KlioReadFromTextSource.read_records\<close>: every record of the underlying text source
  becomes a serialized \<open>KlioMessage\<close> whose \<open>data.v2.element\<close> is the record's UTF-8 bytes.
\<close>

definition read_records :: "str list \<Rightarrow> bytes list" where
  "read_records records = map (\<lambda>record. encode (KlioMessage\<lparr>element := record\<rparr>)) records"

text \<open>
  \<open>_KlioTextSink.write_record\<close>: parses the encoded element and hands
  \<open>message.data.v2.element\<close> to \<open>write_encoded_record\<close>; the result is that record, or the
  parse error.
\<close>

definition write_record :: "bytes \<Rightarrow> pyexc + bytes" where
  "write_record encoded_element =
     (case decode encoded_element of
        Inl err \<Rightarrow> Inl err
      | Inr message \<Rightarrow> Inr (element message))"

section \<open>\<open>klio/transforms/_helpers.py\<close>: the existence-check stage\<close>

datatype DataExistState = FOUND | NOT_FOUND

fun DataExistState_value :: "DataExistState \<Rightarrow> str" where
  "DataExistState_value FOUND = ''found''"
| "DataExistState_value NOT_FOUND = ''not_found''"

fun to_str :: "DataExistState \<Rightarrow> str" where
  "to_str attr = (if attr = NOT_FOUND then ''not found'' else ''found'')"

datatype KlioIODirection = INPUT | OUTPUT

fun KlioIODirection_value :: "KlioIODirection \<Rightarrow> str" where
  "KlioIODirection_value INPUT = ''input''"
| "KlioIODirection_value OUTPUT = ''output''"

text \<open>\<open>DIRECTION_PFX.value.title()\<close> on the two values above.\<close>

fun title_value :: "KlioIODirection \<Rightarrow> str" where
  "title_value INPUT = ''Input''"
| "title_value OUTPUT = ''Output''"

datatype TaggedStates = PROCESS | PASS_THRU | DEFAULT

fun TaggedStates_value :: "TaggedStates \<Rightarrow> str" where
  "TaggedStates_value PROCESS = ''process''"
| "TaggedStates_value PASS_THRU = ''pass_thru''"
| "TaggedStates_value DEFAULT = ''tag_not_set''"

subsection \<open>Job configuration, as far as the modelled code reads it\<close>

record data_config =
  location :: str
  file_suffix :: str
  skip_klio_existence_check :: bool

record event_io =
  name :: str

record event_input = event_io +
  skip_klio_read :: bool

record event_output = event_io +
  skip_klio_write :: bool

record job_config =
  event_inputs :: "event_input list"
  event_outputs :: "event_output list"
  data_inputs :: "data_config list"
  data_outputs :: "data_config list"

record pipeline_options =
  streaming :: bool

record klio_config =
  job_config :: job_config
  pipeline_options :: pipeline_options

subsection \<open>What the code calls but does not define\<close>

text \<open>
  The collaborators of the modelled code that live outside \<open>src/\<close>, taken as parameters:
  \<^item> \<open>to_klio_message\<close> is \<open>v2_msg_handler._to_klio_message(item, config, logger)\<close>: the
    decoded message, or the exception it raises;
  \<^item> \<open>SerializeToString\<close> is the method of the same name of a \<open>KlioMessage\<close>;
  \<^item> \<open>client_exists\<close> is \<open>gcsio.GcsIO().exists(path)\<close>: the answer of the backing store,
    or the exception it raises;
  \<^item> \<open>namedtuple_accepts\<close> says whether \<open>collections.namedtuple\<close> accepts a list of
    field names (it raises \<open>ValueError\<close> otherwise).
\<close>

record env =
  to_klio_message :: "bytes \<Rightarrow> pyexc + klio_message"
  SerializeToString :: "klio_message \<Rightarrow> bytes"
  client_exists :: "str \<Rightarrow> pyexc + bool"
  namedtuple_accepts :: "str list \<Rightarrow> bool"

subsection \<open>One element through a stage\<close>

text \<open>
  A log record is kept by its arguments: \<open>Dropping item err\<close> is the
  \<open>logger.error("Dropping KlioMessage - exception occurred when serializing '%s' to a
  KlioMessage.\nError: %s" % (incoming_item, err))\<close> of \<open>_wrap_process\<close>; \<open>Info s\<close> is
  \<open>logger.info(s)\<close>.
\<close>

datatype log_record = Dropping bytes pyexc | Info str

text \<open>
  Running the generator that a \<open>process\<close> method returns to its end: the tagged outputs it
  yielded, the records it logged, and the exception that ended it, if one did.
\<close>

record stage_result =
  emitted :: "(str \<times> bytes) list"
  logged :: "log_record list"
  escaped :: "pyexc option"

text \<open>
  \<open>_data_config\<close> of \<open>_KlioInputDataMixin\<close> and \<open>_KlioOutputDataMixin\<close>: element 0 of the
  job's data inputs, respectively data outputs; indexing an empty list raises.
\<close>

definition data_config_of :: "klio_config \<Rightarrow> KlioIODirection \<Rightarrow> pyexc + data_config" where
  "data_config_of cfg direction =
     (case (case direction of INPUT \<Rightarrow> data_inputs (job_config cfg)
                             | OUTPUT \<Rightarrow> data_outputs (job_config cfg)) of
        [] \<Rightarrow> Inl IndexError
      | d # _ \<Rightarrow> Inr d)"

text \<open>
  \<open>_get_absolute_path\<close>: \<open>os.path.join(self._location, element.decode("utf-8") +
  self._suffix)\<close>, the arguments evaluated from left to right.
\<close>

definition get_absolute_path :: "klio_config \<Rightarrow> KlioIODirection \<Rightarrow> bytes \<Rightarrow> pyexc + str" where
  "get_absolute_path cfg direction elem =
     (case data_config_of cfg direction of
        Inl err \<Rightarrow> Inl err
      | Inr dc \<Rightarrow>
          (case decode_utf8 elem of
             Inl err \<Rightarrow> Inl err
           | Inr s \<Rightarrow> Inr (path_join (location dc) (s @ file_suffix dc))))"

text \<open>\<open>_KlioGcsCheckExistsBase.process\<close>, for the direction of the mixin it is used with.\<close>

definition process :: "env \<Rightarrow> klio_config \<Rightarrow> KlioIODirection \<Rightarrow> klio_message \<Rightarrow> stage_result" where
  "process ev cfg direction kmsg =
     (let item = element kmsg in
      case get_absolute_path cfg direction item of
        Inl err \<Rightarrow> \<lparr>emitted = [], logged = [], escaped = Some err\<rparr>
      | Inr item_path \<Rightarrow>
          (case client_exists ev item_path of
             Inl err \<Rightarrow> \<lparr>emitted = [], logged = [], escaped = Some err\<rparr>
           | Inr item_exists \<Rightarrow>
               (let state = (if \<not> item_exists then NOT_FOUND else FOUND) in
                \<lparr>emitted = [(DataExistState_value state, SerializeToString ev kmsg)],
                 logged = [Info (title_value direction @ '' '' @ to_str state @ '' at ''
                                 @ item_path)],
                 escaped = None\<rparr>)))"

text \<open>
  \<open>_wrap_process(meth)\<close>, which \<open>_KlioBaseDoFnMetaclass\<close> installs as the \<open>process\<close> of a
  class that defines one and derives from \<open>_KlioBaseDataExistenceCheck\<close>. The \<open>try\<close> block
  holds both the decoding and the \<open>yield from meth(self, kmsg)\<close>, so the handler also sees
  what \<open>meth\<close> raises; outputs yielded before the exception stay emitted.
  \<open>except Exception\<close> lets an exception that is not an \<open>Exception\<close> through.
\<close>

definition handle_exception :: "bytes \<Rightarrow> stage_result \<Rightarrow> pyexc \<Rightarrow> stage_result" where
  "handle_exception incoming_item so_far err =
     (if is_Exception err
      then so_far\<lparr>logged := logged so_far @ [Dropping incoming_item err], escaped := None\<rparr>
      else so_far\<lparr>escaped := Some err\<rparr>)"

definition wrap_process :: "env \<Rightarrow> (klio_message \<Rightarrow> stage_result) \<Rightarrow> bytes \<Rightarrow> stage_result" where
  "wrap_process ev meth incoming_item =
     (case to_klio_message ev incoming_item of
        Inl err \<Rightarrow>
          handle_exception incoming_item \<lparr>emitted = [], logged = [], escaped = None\<rparr> err
      | Inr kmsg \<Rightarrow>
          (let r = meth kmsg in
           case escaped r of
             None \<Rightarrow> r
           | Some err \<Rightarrow> handle_exception incoming_item r err))"

section \<open>\<open>klio_exec/commands/run.py\<close>: assembling the pipeline\<close>

subsection \<open>Collections and the Beam transforms the assembler applies\<close>

text \<open>
  A \<open>PCollection\<close> is read as what it holds when the pipeline runs: \<open>Inr\<close> its elements, or
  \<open>Inl\<close> the exception that escaped a stage upstream of it. The elements are listed in one
  of the orders in which Beam may deliver them; the statements below speak of them as sets
  and multisets. The result of a \<open>ParDo\<close> with outputs holds (tag, element) pairs;
  \<open>tagged_output t\<close> is the attribute access that selects the collection of one tag
  (\<open>pings.process\<close>, \<open>output_exists.found\<close>).
\<close>

type_synonym pcoll = "pyexc + bytes list"
type_synonym tagged_pcoll = "pyexc + (str \<times> bytes) list"

fun run_elements :: "(bytes \<Rightarrow> stage_result) \<Rightarrow> bytes list \<Rightarrow> tagged_pcoll" where
  "run_elements f [] = Inr []"
| "run_elements f (x # xs) =
     (case escaped (f x) of
        Some err \<Rightarrow> Inl err
      | None \<Rightarrow>
          (case run_elements f xs of
             Inl err \<Rightarrow> Inl err
           | Inr ys \<Rightarrow> Inr (emitted (f x) @ ys)))"

definition ParDo :: "(bytes \<Rightarrow> stage_result) \<Rightarrow> pcoll \<Rightarrow> tagged_pcoll" where
  "ParDo f p = (case p of Inl err \<Rightarrow> Inl err | Inr xs \<Rightarrow> run_elements f xs)"

definition tagged_output :: "str \<Rightarrow> tagged_pcoll \<Rightarrow> pcoll" where
  "tagged_output t p =
     (case p of
        Inl err \<Rightarrow> Inl err
      | Inr ys \<Rightarrow> Inr (map snd (filter (\<lambda>y. fst y = t) ys)))"

text \<open>\<open>beam.Flatten()\<close> applied to a tuple or list of collections: all their elements.\<close>

fun Flatten :: "pcoll list \<Rightarrow> pcoll" where
  "Flatten [] = Inr []"
| "Flatten (p # ps) =
     (case p of
        Inl err \<Rightarrow> Inl err
      | Inr xs \<Rightarrow> (case Flatten ps of Inl err \<Rightarrow> Inl err | Inr ys \<Rightarrow> Inr (xs @ ys)))"

text \<open>
  Modelled from the spec: the transforms \<open>KlioFilterPing\<close>, \<open>KlioFilterForce\<close> and
  \<open>KlioDrop\<close> of \<open>klio.transforms.helpers\<close>, which is not under \<open>src/\<close>. Section 4.4: the
  ping filter tags an element \<open>pass_thru\<close> when its ping marker is set and \<open>process\<close>
  otherwise; the force filter tags an element \<open>process\<close> when its force marker is set and
  \<open>pass_thru\<close> otherwise; a dropped element is logged and goes nowhere. Sections 4.1 and
  4.6: every stage decodes on entry through the wrapped entry point and re-encodes on exit.
\<close>

definition ping_process :: "env \<Rightarrow> klio_message \<Rightarrow> stage_result" where
  "ping_process ev kmsg =
     \<lparr>emitted = [(TaggedStates_value (if ping kmsg then PASS_THRU else PROCESS),
                  SerializeToString ev kmsg)],
      logged = [], escaped = None\<rparr>"

text \<open>Modelled from the spec: the force filter of section 4.4.\<close>

definition force_process :: "env \<Rightarrow> klio_message \<Rightarrow> stage_result" where
  "force_process ev kmsg =
     \<lparr>emitted = [(TaggedStates_value (if force kmsg then PROCESS else PASS_THRU),
                  SerializeToString ev kmsg)],
      logged = [], escaped = None\<rparr>"

text \<open>Modelled from the spec: the drop of section 4.4, logged and emitting nothing.\<close>

definition drop_process :: "env \<Rightarrow> klio_message \<Rightarrow> stage_result" where
  "drop_process ev kmsg =
     \<lparr>emitted = [], logged = [Info (''Dropping '' @ element kmsg)], escaped = None\<rparr>"

text \<open>Modelled from the spec: the ping filter as a stage, behind the wrapped entry point of
  sections 4.1 and 4.6.\<close>

definition KlioFilterPing :: "env \<Rightarrow> pcoll \<Rightarrow> tagged_pcoll" where
  "KlioFilterPing ev p = ParDo (wrap_process ev (ping_process ev)) p"

text \<open>Modelled from the spec: the force filter as a stage, behind the wrapped entry point.\<close>

definition KlioFilterForce :: "env \<Rightarrow> pcoll \<Rightarrow> tagged_pcoll" where
  "KlioFilterForce ev p = ParDo (wrap_process ev (force_process ev)) p"

text \<open>Modelled from the spec: the drop as a stage, behind the wrapped entry point.\<close>

definition KlioDrop :: "env \<Rightarrow> pcoll \<Rightarrow> tagged_pcoll" where
  "KlioDrop ev p = ParDo (wrap_process ev (drop_process ev)) p"

text \<open>
  Modelled from the spec: \<open>KlioGcsCheckInputExists\<close> and \<open>KlioGcsCheckOutputExists\<close> of
  \<open>klio.transforms.helpers\<close>, not under \<open>src/\<close>. Section 4.3 and the docstrings of the
  mixins: the existence-check stage \<open>_KlioGcsCheckExistsBase\<close> with the input,
  respectively output, mixin, its \<open>process\<close> wrapped by the metaclass.
\<close>

definition KlioGcsCheckInputExists :: "env \<Rightarrow> klio_config \<Rightarrow> pcoll \<Rightarrow> tagged_pcoll" where
  "KlioGcsCheckInputExists ev cfg p = ParDo (wrap_process ev (process ev cfg INPUT)) p"

text \<open>Modelled from the spec: the existence-check stage of section 4.3 for the output
  direction: \<open>_KlioGcsCheckExistsBase\<close> with \<open>_KlioOutputDataMixin\<close>.\<close>

definition KlioGcsCheckOutputExists :: "env \<Rightarrow> klio_config \<Rightarrow> pcoll \<Rightarrow> tagged_pcoll" where
  "KlioGcsCheckOutputExists ev cfg p = ParDo (wrap_process ev (process ev cfg OUTPUT)) p"

subsection \<open>\<open>KlioPipeline._setup_data_io_filters\<close>\<close>

text \<open>
  The body of \<open>_setup_data_io_filters\<close> in its three blocks: the guard and the two
  configuration reads, the ping filter with the block under
  \<open>if not data_output_config.skip_klio_existence_check\<close>, and the block under
  \<open>if not data_input_config.skip_klio_existence_check\<close>. The labels (\<open>lbl\<close>,
  \<open>label_prefix\<close>) only name the nodes of the graph and are left out.
\<close>

definition output_filters ::
  "env \<Rightarrow> klio_config \<Rightarrow> data_config \<Rightarrow> tagged_pcoll \<Rightarrow> pcoll \<times> pcoll" where
  "output_filters ev cfg data_output_config pings =
     (if \<not> skip_klio_existence_check data_output_config then
        (let output_exists = KlioGcsCheckOutputExists ev cfg (tagged_output ''process'' pings);
             output_force = KlioFilterForce ev (tagged_output ''found'' output_exists);
             to_pass_thru = Flatten [tagged_output ''pass_thru'' pings,
                                     tagged_output ''pass_thru'' output_force];
             to_filter_input = Flatten [tagged_output ''not_found'' output_exists,
                                        tagged_output ''process'' output_force]
         in (to_pass_thru, to_filter_input))
      else (tagged_output ''pass_thru'' pings, tagged_output ''process'' pings))"

definition input_filters :: "env \<Rightarrow> klio_config \<Rightarrow> data_config \<Rightarrow> pcoll \<Rightarrow> pcoll" where
  "input_filters ev cfg data_input_config to_filter_input =
     (if \<not> skip_klio_existence_check data_input_config then
        (let input_exists = KlioGcsCheckInputExists ev cfg to_filter_input;
             dropped = KlioDrop ev (tagged_output ''not_found'' input_exists)
         in tagged_output ''found'' input_exists)
      else to_filter_input)"

definition setup_data_io_filters ::
  "env \<Rightarrow> klio_config \<Rightarrow> pcoll \<Rightarrow> pyexc + (pcoll \<times> pcoll)" where
  "setup_data_io_filters ev cfg in_pcol =
     (if length (data_inputs (job_config cfg)) > 1 \<or> length (data_outputs (job_config cfg)) > 1
      then Inl (SystemExit 1)
      else
        (case data_inputs (job_config cfg) of
           [] \<Rightarrow> Inl IndexError
         | data_input_config # _ \<Rightarrow>
             (case data_outputs (job_config cfg) of
                [] \<Rightarrow> Inl IndexError
              | data_output_config # _ \<Rightarrow>
                  (let pings = KlioFilterPing ev in_pcol;
                       (to_pass_thru, to_filter_input) =
                          output_filters ev cfg data_output_config pings;
                       to_process = input_filters ev cfg data_input_config to_filter_input
                   in Inr (to_process, to_pass_thru)))))"

subsection \<open>The event IO mappers\<close>

datatype read_transform = ReadFromPubSub | KlioReadFromText | KlioReadFromBigQuery | KlioReadFromAvro

datatype write_transform = WriteToPubSub | KlioWriteToText | KlioWriteToBigQuery

definition StreamingEventMapper_input :: "(str \<times> read_transform) list" where
  "StreamingEventMapper_input = [(''pubsub'', ReadFromPubSub)]"

definition StreamingEventMapper_output :: "(str \<times> write_transform) list" where
  "StreamingEventMapper_output = [(''pubsub'', WriteToPubSub)]"

definition BatchEventMapper_input :: "(str \<times> read_transform) list" where
  "BatchEventMapper_input =
     [(''file'', KlioReadFromText), (''bq'', KlioReadFromBigQuery), (''avro'', KlioReadFromAvro)]"

definition BatchEventMapper_output :: "(str \<times> write_transform) list" where
  "BatchEventMapper_output = [(''file'', KlioWriteToText), (''bq'', KlioWriteToBigQuery)]"

text \<open>\<open>self._io_mapper.input\<close> and \<open>self._io_mapper.output\<close>.\<close>

definition io_mapper_input :: "klio_config \<Rightarrow> (str \<times> read_transform) list" where
  "io_mapper_input cfg =
     (if \<not> streaming (pipeline_options cfg) then BatchEventMapper_input
      else StreamingEventMapper_input)"

definition io_mapper_output :: "klio_config \<Rightarrow> (str \<times> write_transform) list" where
  "io_mapper_output cfg =
     (if \<not> streaming (pipeline_options cfg) then BatchEventMapper_output
      else StreamingEventMapper_output)"

subsection \<open>\<open>_generate_pcoll\<close>, \<open>_generate_pcoll_per_input\<close> and \<open>_setup_pipeline\<close>\<close>

text \<open>
  What the user callable receives: the pipeline object itself, a collection, or for several
  inputs the named tuple of one of these per input.
\<close>

datatype pvalueish = Pipeline | PCollection pcoll

datatype callable_input = Single pvalueish | MultiInputPCollTuple "(str \<times> pvalueish) list"

text \<open>
  \<open>read_event_input t input_config\<close> stands for
  \<open>pipeline | transform_cls_in(**input_config.to_io_kwargs())\<close>: \<open>Inl\<close> the exception raised
  while the read transform is built, \<open>Inr\<close> the elements the source yields.
\<close>

type_synonym reader = "read_transform \<Rightarrow> event_input \<Rightarrow> pyexc + bytes list"

definition generate_pcoll ::
  "env \<Rightarrow> reader \<Rightarrow> klio_config \<Rightarrow> event_input \<Rightarrow> pyexc + (pvalueish \<times> pcoll option)" where
  "generate_pcoll ev read_event_input cfg input_config =
     (if skip_klio_read input_config then Inr (Pipeline, None)
      else
        (case map_of (io_mapper_input cfg) (name input_config) of
           None \<Rightarrow> Inl (KeyError (name input_config))
         | Some transform_cls_in \<Rightarrow>
             (case read_event_input transform_cls_in input_config of
                Inl err \<Rightarrow> Inl err
              | Inr records \<Rightarrow>
                  (case setup_data_io_filters ev cfg (Inr records) of
                     Inl err \<Rightarrow> Inl err
                   | Inr (to_process, to_pass_thru) \<Rightarrow>
                       Inr (PCollection to_process, Some to_pass_thru)))))"

text \<open>
  \<open>_generate_input_conf_names\<close>: a dict keyed by \<open>"{}{}".format(ev.name, index)\<close>, in
  insertion order; a key met again keeps its place and takes the new value.
\<close>

definition generate_input_conf_names :: "klio_config \<Rightarrow> (str \<times> event_input) list" where
  "generate_input_conf_names cfg =
     foldl (\<lambda>input_dict (index, ev). AList.update (name ev @ str_of_nat index) ev input_dict)
       [] (enumerate 0 (event_inputs (job_config cfg)))"

text \<open>
  The loop of \<open>_generate_pcoll_per_input\<close> over the items of that dict: the to-process
  value of every input under its name, and the pass-thru collections of the inputs that
  have one (a \<open>PCollection\<close> object is truthy, \<open>None\<close> is not).
\<close>

fun per_input ::
  "env \<Rightarrow> reader \<Rightarrow> klio_config \<Rightarrow> (str \<times> event_input) list
     \<Rightarrow> pyexc + ((str \<times> pvalueish) list \<times> pcoll list)" where
  "per_input ev read_event_input cfg [] = Inr ([], [])"
| "per_input ev read_event_input cfg ((input_name, input_conf) # rest) =
     (case generate_pcoll ev read_event_input cfg input_conf of
        Inl err \<Rightarrow> Inl err
      | Inr (input_to_process, input_to_pass_thru) \<Rightarrow>
          (case per_input ev read_event_input cfg rest of
             Inl err \<Rightarrow> Inl err
           | Inr (input_name_to_input_pcolls, multi_to_pass_thru) \<Rightarrow>
               Inr ((input_name, input_to_process) # input_name_to_input_pcolls,
                    (case input_to_pass_thru of
                       Some p \<Rightarrow> p # multi_to_pass_thru
                     | None \<Rightarrow> multi_to_pass_thru))))"

text \<open>
  \<open>_generate_pcoll_per_input\<close>. The named tuple class is made before the loop. Applying a
  transform to an empty list (\<open>[] | beam.Flatten()\<close>) gives Beam no pipeline to attach it
  to, and Beam raises \<open>ValueError\<close>.
\<close>

definition generate_pcoll_per_input ::
  "env \<Rightarrow> reader \<Rightarrow> klio_config \<Rightarrow> pyexc + (callable_input \<times> pcoll option)" where
  "generate_pcoll_per_input ev read_event_input cfg =
     (let inputs = generate_input_conf_names cfg in
      if \<not> namedtuple_accepts ev (map fst inputs) then Inl ValueError
      else
        (case per_input ev read_event_input cfg inputs of
           Inl err \<Rightarrow> Inl err
         | Inr (input_name_to_input_pcolls, multi_to_pass_thru) \<Rightarrow>
             if multi_to_pass_thru = [] then Inl ValueError
             else Inr (MultiInputPCollTuple input_name_to_input_pcolls,
                       Some (Flatten multi_to_pass_thru))))"

text \<open>
  What \<open>_setup_pipeline\<close> has built when it returns: the value given to the user callable,
  the pass-thru collection (or \<open>None\<close>), the callable's output, and the write transform
  with the collection applied to it (\<open>None\<close> when no output stage is attached). The user
  callable is the function that \<open>_get_run_callable\<close> loaded from the job's \<open>run.py\<close>.
\<close>

record assembled =
  res_to_process :: callable_input
  res_to_pass_thru :: "pcoll option"
  res_out_pcol :: pcoll
  res_to_output :: "(write_transform \<times> pcoll) option"

type_synonym run_callable = "callable_input \<Rightarrow> klio_config \<Rightarrow> pcoll"

definition attach_output ::
  "klio_config \<Rightarrow> pcoll \<Rightarrow> pcoll option \<Rightarrow> pyexc + (write_transform \<times> pcoll) option" where
  "attach_output cfg out to_pass_thru =
     (case event_outputs (job_config cfg) of
        [] \<Rightarrow> Inr None
      | output_config # _ \<Rightarrow>
          if \<not> skip_klio_write output_config then
            (case map_of (io_mapper_output cfg) (name output_config) of
               None \<Rightarrow> Inl (KeyError (name output_config))
             | Some transform_cls_out \<Rightarrow>
                 Inr (Some (transform_cls_out,
                            (case to_pass_thru of
                               Some p \<Rightarrow> Flatten [out, p]
                             | None \<Rightarrow> out))))
          else Inr None)"

definition setup_pipeline ::
  "env \<Rightarrow> reader \<Rightarrow> klio_config \<Rightarrow> run_callable \<Rightarrow> pyexc + assembled" where
  "setup_pipeline ev read_event_input cfg run_callable =
     (case (case event_inputs (job_config cfg) of
              [] \<Rightarrow> Inr (Single Pipeline, None)
            | [input_config] \<Rightarrow>
                (case generate_pcoll ev read_event_input cfg input_config of
                   Inl err \<Rightarrow> Inl err
                 | Inr (p, pt) \<Rightarrow> Inr (Single p, pt))
            | _ \<Rightarrow> generate_pcoll_per_input ev read_event_input cfg) of
        Inl err \<Rightarrow> Inl err
      | Inr (tp, pt) \<Rightarrow>
          (let out = run_callable tp cfg in
           case attach_output cfg out pt of
             Inl err \<Rightarrow> Inl err
           | Inr w \<Rightarrow> Inr \<lparr>res_to_process = tp, res_to_pass_thru = pt, res_out_pcol = out,
                          res_to_output = w\<rparr>))"

section \<open>Concrete jobs and collaborators\<close>

text \<open>
  A backing store that holds exactly the listed paths and never fails, one whose every
  lookup fails with \<open>LookupError\<close>, and collaborators that use the envelope codec above.
  \<open>ascii_field_names\<close> accepts names made of an ASCII letter followed by ASCII letters,
  digits and underscores, all of which \<open>collections.namedtuple\<close> accepts unless they are
  keywords or repeated.
\<close>

definition store :: "str list \<Rightarrow> str \<Rightarrow> pyexc + bool" where
  "store paths path = Inr (path \<in> set paths)"

definition failing_store :: "str \<Rightarrow> pyexc + bool" where
  "failing_store path = Inl LookupError"

definition ascii_letter :: "char \<Rightarrow> bool" where
  "ascii_letter c = (in_range 65 90 c \<or> in_range 97 122 c)"

definition ascii_field_name :: "str \<Rightarrow> bool" where
  "ascii_field_name s =
     (case s of
        [] \<Rightarrow> False
      | c # cs \<Rightarrow> ascii_letter c
                  \<and> list_all (\<lambda>d. ascii_letter d \<or> in_range 48 57 d \<or> d = CHR ''_'') cs)"

definition ascii_field_names :: "str list \<Rightarrow> bool" where
  "ascii_field_names names = (list_all ascii_field_name names \<and> distinct names)"

definition codec_env :: "(str \<Rightarrow> pyexc + bool) \<Rightarrow> env" where
  "codec_env lookup =
     \<lparr>to_klio_message = decode, SerializeToString = encode, client_exists = lookup,
      namedtuple_accepts = ascii_field_names\<rparr>"

definition msg :: "bytes \<Rightarrow> bool \<Rightarrow> bool \<Rightarrow> klio_message" where
  "msg el pg fc = KlioMessage\<lparr>version := 2, element := el, ping := pg, force := fc\<rparr>"

definition data_in :: "bool \<Rightarrow> data_config" where
  "data_in skip =
     \<lparr>location = ''gs://in'', file_suffix = ''.ogg'', skip_klio_existence_check = skip\<rparr>"

definition data_out :: "bool \<Rightarrow> data_config" where
  "data_out skip =
     \<lparr>location = ''gs://out'', file_suffix = ''.wav'', skip_klio_existence_check = skip\<rparr>"

definition file_input :: "bool \<Rightarrow> event_input" where
  "file_input skip = \<lparr>name = ''file'', skip_klio_read = skip\<rparr>"

definition file_output :: "bool \<Rightarrow> event_output" where
  "file_output skip = \<lparr>name = ''file'', skip_klio_write = skip\<rparr>"

definition batch_job ::
  "event_input list \<Rightarrow> event_output list \<Rightarrow> data_config list \<Rightarrow> data_config list
     \<Rightarrow> klio_config" where
  "batch_job eis eos dis dos =
     \<lparr>job_config = \<lparr>event_inputs = eis, event_outputs = eos, data_inputs = dis,
                     data_outputs = dos\<rparr>,
      pipeline_options = \<lparr>streaming = False\<rparr>\<rparr>"

text \<open>
  A batch job with one file input and one file output, both existence checks on, over a
  store where \<open>a\<close> and \<open>c\<close> have their input, and \<open>b\<close>, \<open>c\<close> and \<open>d\<close> already have their
  output. The elements \<open>c\<close> and \<open>d\<close> carry the force marker, \<open>p\<close> the ping marker.
\<close>

definition demo_env :: env where
  "demo_env = codec_env (store [''gs://in/a.ogg'', ''gs://in/c.ogg'', ''gs://out/b.wav'',
                                 ''gs://out/c.wav'', ''gs://out/d.wav''])"

definition demo_job :: "bool \<Rightarrow> bool \<Rightarrow> klio_config" where
  "demo_job skip_in skip_out =
     batch_job [file_input False] [file_output False] [data_in skip_in] [data_out skip_out]"

definition demo_elements :: "bytes list" where
  "demo_elements =
     [encode (msg ''a'' False False), encode (msg ''b'' False False),
      encode (msg ''c'' False True), encode (msg ''d'' False True),
      encode (msg ''p'' True False), ''garbage'']"

text \<open>
  A reader whose text source yields the demo elements and whose BigQuery source yields one
  ping element, a second input and output named \<open>bq\<close>, a job with two event inputs, and a
  user callable that forwards the collections it is given (and yields one element of its
  own when it is given the bare pipeline).
\<close>

definition demo_reader :: reader where
  "demo_reader t input_config =
     (case t of
        KlioReadFromText \<Rightarrow> Inr demo_elements
      | KlioReadFromBigQuery \<Rightarrow> Inr [encode (msg ''q'' True False)]
      | _ \<Rightarrow> Inr [])"

fun collections_of :: "(str \<times> pvalueish) list \<Rightarrow> pcoll list" where
  "collections_of [] = []"
| "collections_of ((n, PCollection p) # rest) = p # collections_of rest"
| "collections_of ((n, Pipeline) # rest) = collections_of rest"

definition demo_run :: run_callable where
  "demo_run tp cfg =
     (case tp of
        Single Pipeline \<Rightarrow> Inr [encode (msg ''r'' False False)]
      | Single (PCollection p) \<Rightarrow> p
      | MultiInputPCollTuple named \<Rightarrow> Flatten (collections_of named))"


definition bq_output :: "bool \<Rightarrow> event_output" where
  "bq_output skip = \<lparr>name = ''bq'', skip_klio_write = skip\<rparr>"


subsection \<open>Notation for the statements\<close>

text \<open>
  \<open>decodes_in ev xs m\<close>: some element of \<open>xs\<close> decodes to the message \<open>m\<close>.
  \<open>looked_up ev cfg d m b\<close>: the path of \<open>m\<close> for direction \<open>d\<close> is computed and the store
  answers \<open>b\<close> for it.
\<close>

abbreviation decodes_in :: "env \<Rightarrow> bytes list \<Rightarrow> klio_message \<Rightarrow> bool" where
  "decodes_in ev xs m \<equiv> (\<exists>x\<in>set xs. to_klio_message ev x = Inr m)"

abbreviation looked_up ::
  "env \<Rightarrow> klio_config \<Rightarrow> KlioIODirection \<Rightarrow> klio_message \<Rightarrow> bool \<Rightarrow> bool" where
  "looked_up ev cfg d m b \<equiv>
     (\<exists>p. get_absolute_path cfg d (element m) = Inr p \<and> client_exists ev p = Inr b)"

text \<open>
  \<open>built_chains cfg\<close>: the event inputs that \<open>_setup_pipeline\<close> calls \<open>_generate_pcoll\<close> on,
  the only input for a single-input job and the values of the input dict otherwise.
  \<open>pass_thru_branches\<close>: the pass-thru collections of those inputs, one per input that
  produced one.
\<close>

definition built_chains :: "klio_config \<Rightarrow> event_input list" where
  "built_chains cfg =
     (case event_inputs (job_config cfg) of
        [] \<Rightarrow> []
      | [input_config] \<Rightarrow> [input_config]
      | _ \<Rightarrow> map snd (generate_input_conf_names cfg))"



section \<open>The envelope codec\<close>

lemma decode_encode_varint: "decode_varint (encode_varint n @ rest) = Some (n, rest)"
proof (induction n rule: encode_varint.induct)
  case (1 n)
  show ?case
  proof (cases "n < 128")
    case True
    then show ?thesis by (subst encode_varint.simps) simp
  next
    case False
    then have ih: "decode_varint (encode_varint (n div 128) @ rest) = Some (n div 128, rest)"
      using 1 by simp
    have m: "(128 + n mod 128) mod 256 = 128 + n mod 128"
      by (rule mod_less) simp
    have "encode_varint n = char_of (128 + n mod 128) # encode_varint (n div 128)"
      using False by (subst encode_varint.simps) simp
    then show ?thesis using ih m by simp
  qed
qed

lemma decode_encode_bytes: "decode_bytes (encode_bytes bs @ rest) = Some (bs, rest)"
  by (simp add: decode_bytes_def encode_bytes_def decode_encode_varint)

lemma decode_encode_bool: "decode_bool (encode_bool b @ rest) = Some (b, rest)"
  by (simp add: encode_bool_def)

lemma parse_fields_encode: "parse_fields (encode e) = Some (e, [])"
proof -
  have last: "decode_bytes (encode_bytes (audit_trail e)) = Some (audit_trail e, [])"
    using decode_encode_bytes [of "audit_trail e" "[]"] by simp
  show ?thesis
    by (simp add: parse_fields_def encode_def decode_encode_varint decode_encode_bytes
        decode_encode_bool last)
qed

lemma decode_encode: "decode (encode e) = Inr e"
  by (simp add: decode_def parse_fields_encode)

lemma write_record_read: "write_record (encode (KlioMessage\<lparr>element := r\<rparr>)) = Inr r"
  by (simp add: write_record_def decode_encode)

text \<open>
  C7: decoding the encoded form of any envelope gives the envelope back, and the record
  that the text source wraps into a message is the record that the text sink's parse hands
  to the file writer. The codec is the one modelled from the spec.
\<close>

theorem envelope_round_trip:
  "decode (encode e) = Inr e
   \<and> map write_record (read_records records) = map Inr records"
  by (simp add: decode_encode read_records_def write_record_read)

section \<open>The wrapped entry point of a stage\<close>

text \<open>
  C3: when decoding the raw element raises an \<open>Exception\<close>, the wrapped entry point, around
  any \<open>process\<close> method, emits nothing, logs one record that carries the element and the
  original error, and ends normally; the run over a bundle goes on with the elements that
  follow as if the element had not been there.
\<close>

theorem decode_failure_contained:
  assumes "to_klio_message ev raw = Inl err" and "is_Exception err"
  shows "wrap_process ev meth raw
           = \<lparr>emitted = [], logged = [Dropping raw err], escaped = None\<rparr>
         \<and> run_elements (wrap_process ev meth) (raw # rest)
           = run_elements (wrap_process ev meth) rest"
proof -
  have w: "wrap_process ev meth raw
             = \<lparr>emitted = [], logged = [Dropping raw err], escaped = None\<rparr>"
    using assms by (simp add: wrap_process_def handle_exception_def)
  have "run_elements (wrap_process ev meth) (raw # rest)
          = run_elements (wrap_process ev meth) rest"
    by (simp add: w split: sum.splits)
  with w show ?thesis by simp
qed

theorem decode_failure_contained_witness:
  "wrap_process (codec_env (store [''gs://in/a.ogg'']))
       (process (codec_env (store [''gs://in/a.ogg'']))
          (batch_job [] [] [data_in False] [data_out False]) INPUT) ''garbage''
     = \<lparr>emitted = [], logged = [Dropping ''garbage'' MalformedEnvelope], escaped = None\<rparr>
   \<and> run_elements
       (wrap_process (codec_env (store [''gs://in/a.ogg'']))
          (process (codec_env (store [''gs://in/a.ogg'']))
             (batch_job [] [] [data_in False] [data_out False]) INPUT))
       [''garbage'', encode (msg ''a'' False False)]
     = Inr [(''found'', encode (msg ''a'' False False))]"
proof -
  have h: "to_klio_message (codec_env (store [''gs://in/a.ogg''])) ''garbage''
             = Inl MalformedEnvelope"
    by code_simp
  have r: "run_elements
             (wrap_process (codec_env (store [''gs://in/a.ogg'']))
                (process (codec_env (store [''gs://in/a.ogg'']))
                   (batch_job [] [] [data_in False] [data_out False]) INPUT))
             [encode (msg ''a'' False False)]
           = Inr [(''found'', encode (msg ''a'' False False))]"
    by code_simp
  show ?thesis
    using decode_failure_contained [OF h, of
        "process (codec_env (store [''gs://in/a.ogg'']))
           (batch_job [] [] [data_in False] [data_out False]) INPUT"
        "[encode (msg ''a'' False False)]"] r
    by simp
qed

text \<open>
  C2 at a failing input: the element \<open>a\<close> decodes, its lookup raises \<open>LookupError\<close>, and
  \<open>process\<close> itself ends with that exception; the wrapped entry point installed by the
  metaclass catches it, logs the "Dropping KlioMessage" record, emits nothing and ends
  normally, so the caller of the stage sees no exception.
\<close>

theorem lookup_error_swallowed:
  "escaped (process (codec_env failing_store)
              (batch_job [] [] [data_in False] [data_out False]) INPUT (msg ''a'' False False))
     = Some LookupError
   \<and> wrap_process (codec_env failing_store)
       (process (codec_env failing_store)
          (batch_job [] [] [data_in False] [data_out False]) INPUT)
       (encode (msg ''a'' False False))
     = \<lparr>emitted = [],
        logged = [Dropping (encode (msg ''a'' False False)) LookupError],
        escaped = None\<rparr>"
  by code_simp

section \<open>Routing through the filters\<close>

lemma run_elements_all_None:
  "\<forall>x\<in>set xs. escaped (f x) = None \<Longrightarrow>
     run_elements f xs = Inr (concat (map (\<lambda>x. emitted (f x)) xs))"
  by (induction xs) auto

lemma run_elements_Inr:
  "run_elements f xs = Inr ys \<Longrightarrow>
     (\<forall>x\<in>set xs. escaped (f x) = None) \<and> ys = concat (map (\<lambda>x. emitted (f x)) xs)"
  by (induction xs arbitrary: ys) (auto split: option.splits sum.splits)

lemma tagged_ParDo_set:
  assumes "tagged_output t (ParDo f (Inr xs)) = Inr zs"
  shows "set zs = {b. \<exists>x\<in>set xs. (t, b) \<in> set (emitted (f x))}"
proof -
  from assms obtain ys where ys: "run_elements f xs = Inr ys"
    and zs: "zs = map snd (filter (\<lambda>y. fst y = t) ys)"
    by (auto simp: tagged_output_def ParDo_def split: sum.splits)
  from ys have "ys = concat (map (\<lambda>x. emitted (f x)) xs)"
    by (simp add: run_elements_Inr)
  with zs show ?thesis by force
qed

lemma tagged_ParDo_source:
  "tagged_output t (ParDo f p) = Inr zs \<Longrightarrow> \<exists>xs. p = Inr xs"
  by (cases p) (auto simp: tagged_output_def ParDo_def)

lemma Flatten_pair:
  "Flatten [a, b] = Inr zs \<longleftrightarrow> (\<exists>xs ys. a = Inr xs \<and> b = Inr ys \<and> zs = xs @ ys)"
  by (auto split: sum.splits)

lemma emitted_handle_exception [simp]:
  "emitted (handle_exception x r e) = emitted r"
  by (simp add: handle_exception_def)

lemma emitted_ping:
  "(t, b) \<in> set (emitted (wrap_process ev (ping_process ev) x)) \<longleftrightarrow>
     (\<exists>m. to_klio_message ev x = Inr m
          \<and> t = (if ping m then ''pass_thru'' else ''process'') \<and> b = SerializeToString ev m)"
  by (cases "to_klio_message ev x") (auto simp: wrap_process_def ping_process_def)

lemma emitted_force:
  "(t, b) \<in> set (emitted (wrap_process ev (force_process ev) x)) \<longleftrightarrow>
     (\<exists>m. to_klio_message ev x = Inr m
          \<and> t = (if force m then ''process'' else ''pass_thru'') \<and> b = SerializeToString ev m)"
  by (cases "to_klio_message ev x") (auto simp: wrap_process_def force_process_def)

lemma emitted_process:
  "(t, b) \<in> set (emitted (process ev cfg d m)) \<longleftrightarrow>
     (\<exists>found. looked_up ev cfg d m found
          \<and> t = (if found then ''found'' else ''not_found'') \<and> b = SerializeToString ev m)"
  by (cases "get_absolute_path cfg d (element m)")
     (auto simp: process_def Let_def split: sum.splits)

lemma emitted_exists:
  "(t, b) \<in> set (emitted (wrap_process ev (process ev cfg d) x)) \<longleftrightarrow>
     (\<exists>m found. to_klio_message ev x = Inr m \<and> looked_up ev cfg d m found
          \<and> t = (if found then ''found'' else ''not_found'') \<and> b = SerializeToString ev m)"
proof (cases "to_klio_message ev x")
  case (Inl e)
  then show ?thesis by (simp add: wrap_process_def)
next
  case (Inr m)
  then have "emitted (wrap_process ev (process ev cfg d) x) = emitted (process ev cfg d m)"
    by (simp add: wrap_process_def Let_def split: option.splits)
  then show ?thesis using Inr by (simp add: emitted_process)
qed

lemma ping_branch:
  assumes "tagged_output t (KlioFilterPing ev (Inr xs)) = Inr zs"
  shows "set zs = {SerializeToString ev m | m.
                     decodes_in ev xs m \<and> t = (if ping m then ''pass_thru'' else ''process'')}"
  unfolding tagged_ParDo_set [OF assms [unfolded KlioFilterPing_def]] emitted_ping
  by blast

lemma force_branch:
  assumes "tagged_output t (KlioFilterForce ev (Inr xs)) = Inr zs"
  shows "set zs = {SerializeToString ev m | m.
                     decodes_in ev xs m \<and> t = (if force m then ''process'' else ''pass_thru'')}"
  unfolding tagged_ParDo_set [OF assms [unfolded KlioFilterForce_def]] emitted_force
  by blast

lemma exists_branch:
  assumes "tagged_output t (ParDo (wrap_process ev (process ev cfg d)) (Inr xs)) = Inr zs"
  shows "set zs = {SerializeToString ev m | m.
                     decodes_in ev xs m
                     \<and> (\<exists>found. looked_up ev cfg d m found
                            \<and> t = (if found then ''found'' else ''not_found''))}"
  unfolding tagged_ParDo_set [OF assms] emitted_exists
  by blast


lemma decodes_in_canonical:
  assumes "\<forall>m. to_klio_message ev (SerializeToString ev m) = Inr m"
    and "set zs = {SerializeToString ev m | m. P m}"
  shows "decodes_in ev zs m \<longleftrightarrow> P m"
  using assms by auto

lemma output_filters_checked:
  assumes rt: "\<forall>m. to_klio_message ev (SerializeToString ev m) = Inr m"
    and ns: "\<not> skip_klio_existence_check doc"
    and res: "output_filters ev cfg doc (KlioFilterPing ev (Inr xs)) = (Inr pt, Inr tf)"
  shows "set pt = {SerializeToString ev m | m.
                     decodes_in ev xs m \<and> (ping m \<or> (looked_up ev cfg OUTPUT m True \<and> \<not> force m))}"
    and "set tf = {SerializeToString ev m | m.
                     decodes_in ev xs m \<and> \<not> ping m
                     \<and> (looked_up ev cfg OUTPUT m False \<or> (looked_up ev cfg OUTPUT m True \<and> force m))}"
proof -
  let ?pings = "KlioFilterPing ev (Inr xs)"
  let ?oe = "KlioGcsCheckOutputExists ev cfg (tagged_output ''process'' ?pings)"
  let ?of = "KlioFilterForce ev (tagged_output ''found'' ?oe)"
  from res ns have f1: "Flatten [tagged_output ''pass_thru'' ?pings, tagged_output ''pass_thru'' ?of] = Inr pt"
    and f2: "Flatten [tagged_output ''not_found'' ?oe, tagged_output ''process'' ?of] = Inr tf"
    by (simp_all add: output_filters_def Let_def)
  from f1 [unfolded Flatten_pair] obtain pp fp where pp: "tagged_output ''pass_thru'' ?pings = Inr pp"
    and fp: "tagged_output ''pass_thru'' ?of = Inr fp" and pt: "pt = pp @ fp"
    by blast
  from f2 [unfolded Flatten_pair] obtain nf fpr where nf: "tagged_output ''not_found'' ?oe = Inr nf"
    and fpr: "tagged_output ''process'' ?of = Inr fpr" and tf: "tf = nf @ fpr"
    by blast
  from nf obtain ps where ps: "tagged_output ''process'' ?pings = Inr ps"
    unfolding KlioGcsCheckOutputExists_def by (blast dest: tagged_ParDo_source)
  from fp obtain fs where fs: "tagged_output ''found'' ?oe = Inr fs"
    unfolding KlioFilterForce_def by (blast dest: tagged_ParDo_source)
  have Spp: "set pp = {SerializeToString ev m | m. decodes_in ev xs m \<and> ping m}"
    using ping_branch [OF pp] by auto
  have Sps: "set ps = {SerializeToString ev m | m. decodes_in ev xs m \<and> \<not> ping m}"
    using ping_branch [OF ps] by auto
  have Dps: "\<And>m. decodes_in ev ps m \<longleftrightarrow> decodes_in ev xs m \<and> \<not> ping m"
    by (rule decodes_in_canonical [OF rt Sps])
  have Sfs: "set fs = {SerializeToString ev m | m.
                         decodes_in ev xs m \<and> \<not> ping m \<and> looked_up ev cfg OUTPUT m True}"
    using exists_branch [OF fs [unfolded KlioGcsCheckOutputExists_def ps]] unfolding Dps
    by auto
  have Snf: "set nf = {SerializeToString ev m | m.
                         decodes_in ev xs m \<and> \<not> ping m \<and> looked_up ev cfg OUTPUT m False}"
    using exists_branch [OF nf [unfolded KlioGcsCheckOutputExists_def ps]] unfolding Dps
    by auto
  have Dfs: "\<And>m. decodes_in ev fs m \<longleftrightarrow>
                  decodes_in ev xs m \<and> \<not> ping m \<and> looked_up ev cfg OUTPUT m True"
    by (rule decodes_in_canonical [OF rt Sfs])
  have Sfp: "set fp = {SerializeToString ev m | m.
                         decodes_in ev xs m \<and> \<not> ping m \<and> looked_up ev cfg OUTPUT m True
                         \<and> \<not> force m}"
    using force_branch [OF fp [unfolded fs]] unfolding Dfs by auto
  have Sfpr: "set fpr = {SerializeToString ev m | m.
                           decodes_in ev xs m \<and> \<not> ping m \<and> looked_up ev cfg OUTPUT m True
                           \<and> force m}"
    using force_branch [OF fpr [unfolded fs]] unfolding Dfs by auto
  show "set pt = {SerializeToString ev m | m.
                    decodes_in ev xs m \<and> (ping m \<or> (looked_up ev cfg OUTPUT m True \<and> \<not> force m))}"
    unfolding pt set_append Spp Sfp by blast
  show "set tf = {SerializeToString ev m | m.
                    decodes_in ev xs m \<and> \<not> ping m
                    \<and> (looked_up ev cfg OUTPUT m False \<or> (looked_up ev cfg OUTPUT m True \<and> force m))}"
    unfolding tf set_append Snf Sfpr by blast
qed


lemma input_filters_checked:
  assumes rt: "\<forall>m. to_klio_message ev (SerializeToString ev m) = Inr m"
    and ns: "\<not> skip_klio_existence_check dic"
    and tf: "set tf = {SerializeToString ev m | m. Q m}"
    and res: "input_filters ev cfg dic (Inr tf) = Inr tp"
  shows "set tp = {SerializeToString ev m | m. Q m \<and> looked_up ev cfg INPUT m True}"
proof -
  from res ns have
    "tagged_output ''found'' (ParDo (wrap_process ev (process ev cfg INPUT)) (Inr tf)) = Inr tp"
    by (simp add: input_filters_def Let_def KlioGcsCheckInputExists_def)
  from exists_branch [OF this] show ?thesis
    unfolding decodes_in_canonical [OF rt tf] by auto
qed


lemma setup_data_io_filters_Inr:
  "setup_data_io_filters ev cfg in_pcol = Inr (tp, pt) \<longleftrightarrow>
     (\<exists>dic doc tf. data_inputs (job_config cfg) = [dic] \<and> data_outputs (job_config cfg) = [doc]
        \<and> output_filters ev cfg doc (KlioFilterPing ev in_pcol) = (pt, tf)
        \<and> tp = input_filters ev cfg dic tf)"
  by (cases "data_inputs (job_config cfg)"; cases "data_outputs (job_config cfg)")
     (auto simp: setup_data_io_filters_def Let_def split: prod.splits)

lemma input_filters_source:
  "input_filters ev cfg dic tf = Inr tp \<Longrightarrow> \<exists>l. tf = Inr l"
  by (cases "skip_klio_existence_check dic")
     (auto simp: input_filters_def Let_def KlioGcsCheckInputExists_def dest: tagged_ParDo_source)






lemma mem_canonical:
  assumes "\<forall>k. to_klio_message ev (SerializeToString ev k) = Inr k"
  shows "SerializeToString ev m \<in> {SerializeToString ev k | k. P k} \<longleftrightarrow> P m"
proof
  assume "SerializeToString ev m \<in> {SerializeToString ev k | k. P k}"
  then obtain k where k: "SerializeToString ev m = SerializeToString ev k" "P k" by blast
  from k(1) assms have "m = k" by (metis sum.inject(2))
  with k(2) show "P m" by simp
qed blast

text \<open>
  C4, amended: with the output existence check on, an element of the PROCESS branch whose
  output is found and whose force marker is not set is in the pass-thru collection and not
  in the collection given to the user callable; one whose output is not found, or is found
  with the force marker set, is not in the pass-thru collection and goes on to the input
  existence filter, so it is in the collection given to the user callable exactly when the
  input existence check is skipped or its input is found.
\<close>

theorem output_existence_and_force_routing:
  assumes rt: "\<forall>k. to_klio_message ev (SerializeToString ev k) = Inr k"
    and cfgs: "data_outputs (job_config cfg) = [doc]" "\<not> skip_klio_existence_check doc"
      "data_inputs (job_config cfg) = [dic]"
    and built: "setup_data_io_filters ev cfg (Inr xs) = Inr (Inr tp, Inr pt)"
    and x: "x \<in> set xs" "to_klio_message ev x = Inr m" "\<not> ping m"
    and out: "get_absolute_path cfg OUTPUT (element m) = Inr opath"
      "client_exists ev opath = Inr found"
  shows "(found \<and> \<not> force m \<longrightarrow>
            SerializeToString ev m \<in> set pt \<and> SerializeToString ev m \<notin> set tp)
         \<and> (\<not> found \<or> force m \<longrightarrow>
              SerializeToString ev m \<notin> set pt
              \<and> (SerializeToString ev m \<in> set tp \<longleftrightarrow>
                   skip_klio_existence_check dic
                   \<or> (\<exists>ipath. get_absolute_path cfg INPUT (element m) = Inr ipath
                         \<and> client_exists ev ipath = Inr True)))"
proof -
  from built cfgs obtain tf
    where o: "output_filters ev cfg doc (KlioFilterPing ev (Inr xs)) = (Inr pt, tf)"
      and i: "Inr tp = input_filters ev cfg dic tf"
    unfolding setup_data_io_filters_Inr by auto
  from i obtain tfl where tfl: "tf = Inr tfl"
    by (metis input_filters_source)
  note S = output_filters_checked [OF rt cfgs(2) o [unfolded tfl]]
  have dx: "decodes_in ev xs m" using x by blast
  have lu: "looked_up ev cfg OUTPUT m b \<longleftrightarrow> b = found" for b
    using out by auto
  have in_pt: "SerializeToString ev m \<in> set pt \<longleftrightarrow> found \<and> \<not> force m"
    unfolding S(1) mem_canonical [OF rt] using dx x(3) lu by auto
  have in_tf: "SerializeToString ev m \<in> set tfl \<longleftrightarrow> \<not> found \<or> force m"
    unfolding S(2) mem_canonical [OF rt] using dx x(3) lu by auto
  have in_tp: "SerializeToString ev m \<in> set tp \<longleftrightarrow>
                 (\<not> found \<or> force m)
                 \<and> (skip_klio_existence_check dic \<or> looked_up ev cfg INPUT m True)"
  proof (cases "skip_klio_existence_check dic")
    case True
    with i tfl have "tp = tfl" by (simp add: input_filters_def)
    with in_tf True show ?thesis by simp
  next
    case False
    note T = input_filters_checked [OF rt False S(2) i [unfolded tfl, symmetric]]
    show ?thesis
      unfolding T mem_canonical [OF rt] using dx x(3) lu False by auto
  qed
  from in_pt in_tp show ?thesis by blast
qed

text \<open>
  C8: with \<open>skip_klio_existence_check\<close> set for the data input, the collection given to the
  user callable is the collection that leaves the ping and output filters, with no input
  existence filter on it; with \<open>skip_klio_existence_check\<close> set for the data output, the
  pass-thru collection is the ping filter's pass-thru output and the ping filter's process
  output goes directly into the input existence filtering.
\<close>

theorem skip_flag_wiring:
  assumes "data_inputs (job_config cfg) = [dic]" and "data_outputs (job_config cfg) = [doc]"
  shows "(skip_klio_existence_check dic \<longrightarrow>
            setup_data_io_filters ev cfg in_pcol
              = Inr (snd (output_filters ev cfg doc (KlioFilterPing ev in_pcol)),
                     fst (output_filters ev cfg doc (KlioFilterPing ev in_pcol))))
         \<and> (skip_klio_existence_check doc \<longrightarrow>
              setup_data_io_filters ev cfg in_pcol
                = Inr (input_filters ev cfg dic
                         (tagged_output ''process'' (KlioFilterPing ev in_pcol)),
                       tagged_output ''pass_thru'' (KlioFilterPing ev in_pcol)))"
  using assms
  by (simp add: setup_data_io_filters_def Let_def input_filters_def output_filters_def
      split: prod.splits)

lemma codec_env_round_trip:
  "\<forall>k. to_klio_message (codec_env lookup) (SerializeToString (codec_env lookup) k) = Inr k"
  by (simp add: codec_env_def decode_encode)

lemma demo_filters:
  "setup_data_io_filters demo_env (demo_job False False) (Inr demo_elements)
     = Inr (Inr [encode (msg ''a'' False False), encode (msg ''c'' False True)],
            Inr [encode (msg ''p'' True False), encode (msg ''b'' False False)])"
  by code_simp


text \<open>
  C4, as stated, at the element \<open>d\<close>: its output is found and its force marker is set, but
  its input is not in the store, so the input existence filter drops it and it is not in
  the collection given to the user callable.
\<close>

theorem forced_element_without_input_counterexample:
  "get_absolute_path (demo_job False False) OUTPUT (element (msg ''d'' False True))
     = Inr ''gs://out/d.wav''
   \<and> client_exists demo_env ''gs://out/d.wav'' = Inr True
   \<and> force (msg ''d'' False True)
   \<and> setup_data_io_filters demo_env (demo_job False False) (Inr [encode (msg ''d'' False True)])
     = Inr (Inr [], Inr [])"
  by code_simp

theorem output_existence_and_force_routing_witness:
  "encode (msg ''b'' False False)
       \<in> set [encode (msg ''p'' True False), encode (msg ''b'' False False)]
   \<and> encode (msg ''b'' False False)
       \<notin> set [encode (msg ''a'' False False), encode (msg ''c'' False True)]
   \<and> encode (msg ''c'' False True)
       \<notin> set [encode (msg ''p'' True False), encode (msg ''b'' False False)]
   \<and> encode (msg ''c'' False True)
       \<in> set [encode (msg ''a'' False False), encode (msg ''c'' False True)]"
proof -
  have rt: "\<forall>k. to_klio_message demo_env (SerializeToString demo_env k) = Inr k"
    unfolding demo_env_def by (rule codec_env_round_trip)
  have dos: "data_outputs (job_config (demo_job False False)) = [data_out False]"
    and dis: "data_inputs (job_config (demo_job False False)) = [data_in False]"
    and ns: "\<not> skip_klio_existence_check (data_out False)"
    by (simp_all add: demo_job_def batch_job_def data_out_def)
  have xb: "encode (msg ''b'' False False) \<in> set demo_elements"
    and xc: "encode (msg ''c'' False True) \<in> set demo_elements"
    by (simp_all add: demo_elements_def)
  have db: "to_klio_message demo_env (encode (msg ''b'' False False)) = Inr (msg ''b'' False False)"
    and dc: "to_klio_message demo_env (encode (msg ''c'' False True)) = Inr (msg ''c'' False True)"
    by (simp_all add: demo_env_def codec_env_def decode_encode)
  have pb: "\<not> ping (msg ''b'' False False)" and pc: "\<not> ping (msg ''c'' False True)"
    by (simp_all add: msg_def KlioMessage_def)
  have ob: "get_absolute_path (demo_job False False) OUTPUT (element (msg ''b'' False False))
              = Inr ''gs://out/b.wav''"
    and oc: "get_absolute_path (demo_job False False) OUTPUT (element (msg ''c'' False True))
              = Inr ''gs://out/c.wav''"
    and ic: "get_absolute_path (demo_job False False) INPUT (element (msg ''c'' False True))
              = Inr ''gs://in/c.ogg''"
    by code_simp+
  have eb: "client_exists demo_env ''gs://out/b.wav'' = Inr True"
    and ec: "client_exists demo_env ''gs://out/c.wav'' = Inr True"
    and ei: "client_exists demo_env ''gs://in/c.ogg'' = Inr True"
    by code_simp+
  have fb: "\<not> force (msg ''b'' False False)" and fc: "force (msg ''c'' False True)"
    by (simp_all add: msg_def KlioMessage_def)
  have s: "SerializeToString demo_env = encode"
    by (simp add: demo_env_def codec_env_def)
  show ?thesis
    using output_existence_and_force_routing [OF rt dos ns dis demo_filters xb db pb ob eb]
      output_existence_and_force_routing [OF rt dos ns dis demo_filters xc dc pc oc ec]
      fb fc ic ei
    by (simp add: s)
qed

theorem skip_flag_wiring_witness:
  "setup_data_io_filters demo_env (demo_job True False) (Inr demo_elements)
     = Inr (Inr [encode (msg ''a'' False False), encode (msg ''c'' False True),
                 encode (msg ''d'' False True)],
            Inr [encode (msg ''p'' True False), encode (msg ''b'' False False)])
   \<and> setup_data_io_filters demo_env (demo_job False True) (Inr demo_elements)
     = Inr (Inr [encode (msg ''a'' False False), encode (msg ''c'' False True)],
            Inr [encode (msg ''p'' True False)])"
proof -
  have i1: "data_inputs (job_config (demo_job True False)) = [data_in True]"
    and o1: "data_outputs (job_config (demo_job True False)) = [data_out False]"
    and i2: "data_inputs (job_config (demo_job False True)) = [data_in False]"
    and o2: "data_outputs (job_config (demo_job False True)) = [data_out True]"
    by (simp_all add: demo_job_def batch_job_def)
  have s1: "skip_klio_existence_check (data_in True)"
    and s2: "skip_klio_existence_check (data_out True)"
    by (simp_all add: data_in_def data_out_def)
  have e1: "output_filters demo_env (demo_job True False) (data_out False)
              (KlioFilterPing demo_env (Inr demo_elements))
            = (Inr [encode (msg ''p'' True False), encode (msg ''b'' False False)],
               Inr [encode (msg ''a'' False False), encode (msg ''c'' False True),
                    encode (msg ''d'' False True)])"
    by code_simp
  have e2: "input_filters demo_env (demo_job False True) (data_in False)
              (tagged_output ''process'' (KlioFilterPing demo_env (Inr demo_elements)))
            = Inr [encode (msg ''a'' False False), encode (msg ''c'' False True)]"
    and e3: "tagged_output ''pass_thru'' (KlioFilterPing demo_env (Inr demo_elements))
            = Inr [encode (msg ''p'' True False)]"
    by code_simp+
  show ?thesis
    using skip_flag_wiring [OF i1 o1, of demo_env "Inr demo_elements"]
      skip_flag_wiring [OF i2 o2, of demo_env "Inr demo_elements"] s1 s2
    by (simp add: e1 e2 e3)
qed

section \<open>Assembling the pipeline\<close>


lemma per_input_abort:
  "\<exists>kv\<in>set kvs. \<exists>e. generate_pcoll ev rd cfg (snd kv) = Inl e \<Longrightarrow>
     \<exists>e. per_input ev rd cfg kvs = Inl e"
proof (induction kvs)
  case Nil
  then show ?case by simp
next
  case (Cons kv kvs)
  obtain k v where kv: "kv = (k, v)" by (cases kv)
  show ?case
  proof (cases "generate_pcoll ev rd cfg v")
    case (Inl e)
    with kv show ?thesis by simp
  next
    case (Inr r)
    with Cons.prems kv have "\<exists>kv\<in>set kvs. \<exists>e. generate_pcoll ev rd cfg (snd kv) = Inl e"
      by auto
    from Cons.IH [OF this] obtain e where "per_input ev rd cfg kvs = Inl e" by blast
    with Inr kv show ?thesis by (auto split: prod.splits)
  qed
qed



















lemma generate_pcoll_skipped:
  "skip_klio_read input_config \<Longrightarrow> generate_pcoll ev rd cfg input_config = Inr (Pipeline, None)"
  by (simp add: generate_pcoll_def)

text \<open>
  C9: for a single event input with \<open>skip_klio_read\<close> set, \<open>_generate_pcoll\<close> returns the
  pipeline object itself and \<open>None\<close> for the pass-thru branch, whatever the data
  configuration is; \<open>_setup_pipeline\<close> calls the user callable on that pipeline object and,
  when it attaches an output stage, hands it the callable's output as it is. The only way
  the assembly fails is an event output name the IO mapper does not know.
\<close>

theorem skip_klio_read_single_input:
  assumes "event_inputs (job_config cfg) = [input_config]" and "skip_klio_read input_config"
  shows "generate_pcoll ev rd cfg input_config = Inr (Pipeline, None)
         \<and> (case setup_pipeline ev rd cfg run of
               Inl err \<Rightarrow>
                 (\<exists>oc rest. event_outputs (job_config cfg) = oc # rest \<and> \<not> skip_klio_write oc
                    \<and> map_of (io_mapper_output cfg) (name oc) = None \<and> err = KeyError (name oc))
             | Inr a \<Rightarrow>
                 res_to_process a = Single Pipeline \<and> res_to_pass_thru a = None
                 \<and> res_out_pcol a = run (Single Pipeline) cfg
                 \<and> (\<forall>t s. res_to_output a = Some (t, s) \<longrightarrow> s = run (Single Pipeline) cfg))"
  using assms
  by (auto simp: setup_pipeline_def generate_pcoll_skipped attach_output_def Let_def
      split: sum.splits list.splits option.splits if_splits)

lemma generate_pcoll_abort:
  assumes "length (data_inputs (job_config cfg)) > 1 \<or> length (data_outputs (job_config cfg)) > 1"
    and "\<not> skip_klio_read i"
  shows "\<exists>e. generate_pcoll ev rd cfg i = Inl e"
  using assms
  by (auto simp: generate_pcoll_def setup_data_io_filters_def split: option.splits sum.splits)

text \<open>
  C6, amended: when the job declares more than one data input or more than one data
  output, \<open>_setup_data_io_filters\<close> exits with \<open>SystemExit(1)\<close> whatever collection it is
  given, and \<open>_setup_pipeline\<close> returns no pipeline as soon as one of the event inputs it
  builds a chain for does not set \<open>skip_klio_read\<close>; for a single such input with a
  supported name and a read transform that builds, the error is that \<open>SystemExit(1)\<close>.
  Nothing depends on the elements read or on the store.
\<close>

theorem multiple_data_io_aborts:
  assumes "length (data_inputs (job_config cfg)) > 1 \<or> length (data_outputs (job_config cfg)) > 1"
  shows "setup_data_io_filters ev cfg in_pcol = Inl (SystemExit 1)
         \<and> ((\<exists>i\<in>set (built_chains cfg). \<not> skip_klio_read i) \<longrightarrow>
              (\<exists>e. setup_pipeline ev rd cfg run = Inl e))
         \<and> (\<forall>i t recs. event_inputs (job_config cfg) = [i] \<and> \<not> skip_klio_read i
                \<and> map_of (io_mapper_input cfg) (name i) = Some t \<and> rd t i = Inr recs \<longrightarrow>
              setup_pipeline ev rd cfg run = Inl (SystemExit 1))"
proof -
  have 1: "setup_data_io_filters ev cfg in_pcol = Inl (SystemExit 1)" for in_pcol
    using assms by (simp add: setup_data_io_filters_def)
  have 2: "\<exists>e. setup_pipeline ev rd cfg run = Inl e"
    if "\<exists>i\<in>set (built_chains cfg). \<not> skip_klio_read i"
  proof (cases "event_inputs (job_config cfg)")
    case Nil
    with that show ?thesis by (simp add: built_chains_def)
  next
    case (Cons i rest)
    show ?thesis
    proof (cases rest)
      case Nil
      with Cons that have "\<not> skip_klio_read i" by (simp add: built_chains_def)
      from generate_pcoll_abort [OF assms this] obtain e
        where "generate_pcoll ev rd cfg i = Inl e" by blast
      with Cons Nil show ?thesis by (simp add: setup_pipeline_def)
    next
      case (Cons j rest')
      with \<open>event_inputs (job_config cfg) = i # rest\<close> that
      obtain kv where kv: "kv \<in> set (generate_input_conf_names cfg)" "\<not> skip_klio_read (snd kv)"
        by (auto simp: built_chains_def)
      from generate_pcoll_abort [OF assms kv(2)] kv(1)
      have "\<exists>kv\<in>set (generate_input_conf_names cfg). \<exists>e. generate_pcoll ev rd cfg (snd kv) = Inl e"
        by blast
      from per_input_abort [OF this] obtain e
        where "per_input ev rd cfg (generate_input_conf_names cfg) = Inl e" by blast
      then have "\<exists>e. generate_pcoll_per_input ev rd cfg = Inl e"
        by (simp add: generate_pcoll_per_input_def Let_def)
      with Cons \<open>event_inputs (job_config cfg) = i # rest\<close> show ?thesis
        by (auto simp: setup_pipeline_def)
    qed
  qed
  have 3: "setup_pipeline ev rd cfg run = Inl (SystemExit 1)"
    if "event_inputs (job_config cfg) = [i]" "\<not> skip_klio_read i"
      "map_of (io_mapper_input cfg) (name i) = Some t" "rd t i = Inr recs"
    for i t recs
    using that by (simp add: setup_pipeline_def generate_pcoll_def 1)
  from 1 2 3 show ?thesis by blast
qed




theorem skip_klio_read_single_input_witness:
  "setup_pipeline demo_env demo_reader (batch_job [file_input True] [file_output False] [] [])
       demo_run
     = Inr \<lparr>res_to_process = Single Pipeline, res_to_pass_thru = None,
             res_out_pcol = Inr [encode (msg ''r'' False False)],
             res_to_output = Some (KlioWriteToText, Inr [encode (msg ''r'' False False)])\<rparr>"
proof -
  have i: "event_inputs (job_config (batch_job [file_input True] [file_output False] [] []))
             = [file_input True]"
    by (simp add: batch_job_def)
  have s: "skip_klio_read (file_input True)"
    by (simp add: file_input_def)
  have e: "setup_pipeline demo_env demo_reader
             (batch_job [file_input True] [file_output False] [] []) demo_run
           = Inr \<lparr>res_to_process = Single Pipeline, res_to_pass_thru = None,
                   res_out_pcol = Inr [encode (msg ''r'' False False)],
                   res_to_output = Some (KlioWriteToText, Inr [encode (msg ''r'' False False)])\<rparr>"
    by code_simp
  show ?thesis
    using skip_klio_read_single_input [OF i s, of demo_env demo_reader demo_run] e
    by simp
qed

text \<open>
  C6, as stated, at two jobs that are built without error: one declares two data inputs,
  two data outputs and two event outputs and its only event input sets \<open>skip_klio_read\<close>,
  so the guard in \<open>_setup_data_io_filters\<close> is never reached; the other declares two event
  outputs, of which \<open>_setup_pipeline\<close> takes the first and says nothing about the second.
\<close>

theorem unsupported_topology_builds_counterexample:
  "setup_pipeline demo_env demo_reader
       (batch_job [file_input True] [file_output False, bq_output False]
          [data_in False, data_in False] [data_out False, data_out False]) demo_run
     = Inr \<lparr>res_to_process = Single Pipeline, res_to_pass_thru = None,
             res_out_pcol = Inr [encode (msg ''r'' False False)],
             res_to_output = Some (KlioWriteToText, Inr [encode (msg ''r'' False False)])\<rparr>
   \<and> setup_pipeline demo_env demo_reader
       (batch_job [file_input False] [file_output False, bq_output False]
          [data_in False] [data_out False]) demo_run
     = Inr \<lparr>res_to_process =
               Single (PCollection (Inr [encode (msg ''a'' False False),
                                         encode (msg ''c'' False True)])),
             res_to_pass_thru =
               Some (Inr [encode (msg ''p'' True False), encode (msg ''b'' False False)]),
             res_out_pcol = Inr [encode (msg ''a'' False False), encode (msg ''c'' False True)],
             res_to_output =
               Some (KlioWriteToText,
                     Inr [encode (msg ''a'' False False), encode (msg ''c'' False True),
                          encode (msg ''p'' True False), encode (msg ''b'' False False)])\<rparr>"
  by code_simp

theorem multiple_data_io_aborts_witness:
  "setup_data_io_filters demo_env
       (batch_job [file_input False] [file_output False] [data_in False, data_in False]
          [data_out False]) (Inr demo_elements)
     = Inl (SystemExit 1)
   \<and> setup_pipeline demo_env demo_reader
       (batch_job [file_input False] [file_output False] [data_in False, data_in False]
          [data_out False]) demo_run
     = Inl (SystemExit 1)"
proof -
  let ?cfg = "batch_job [file_input False] [file_output False] [data_in False, data_in False]
                [data_out False]"
  have l: "length (data_inputs (job_config ?cfg)) > 1 \<or> length (data_outputs (job_config ?cfg)) > 1"
    by (simp add: batch_job_def)
  have i: "event_inputs (job_config ?cfg) = [file_input False]"
    by (simp add: batch_job_def)
  have s: "\<not> skip_klio_read (file_input False)"
    by (simp add: file_input_def)
  have m: "map_of (io_mapper_input ?cfg) (name (file_input False)) = Some KlioReadFromText"
    by code_simp
  have r: "demo_reader KlioReadFromText (file_input False) = Inr demo_elements"
    by (simp add: demo_reader_def)
  have b: "\<exists>i\<in>set (built_chains ?cfg). \<not> skip_klio_read i"
    using i s by (simp add: built_chains_def)
  show ?thesis
    using multiple_data_io_aborts [OF l, of demo_env "Inr demo_elements" demo_reader demo_run]
      i s m r b
    by blast
qed

section \<open>Properties of \<open>_get_file_pattern\<close>\<close>

text \<open>
  C10, as stated, at two empty strings: neither argument is \<open>None\<close>, yet the call raises
  \<open>KlioMissingConfiguration\<close>, so "raises if and only if both are \<open>None\<close>" fails.
\<close>

theorem get_file_pattern_empty_strings_counterexample:
  "\<not> (get_file_pattern (Some '''') (Some '''') False = Inl KlioMissingConfiguration
        \<longleftrightarrow> (Some '''' = (None :: str option) \<and> Some '''' = (None :: str option)))"
  by (simp add: get_file_pattern_def)

text \<open>
  C10, amended: \<open>_get_file_pattern\<close> raises \<open>KlioMissingConfiguration\<close> if and only if
  both \<open>file_pattern\<close> and \<open>location\<close> are falsy (\<open>None\<close> or the empty string), and it raises
  nothing else; when both are non-empty the pattern is
  \<open>os.path.join(location, file_pattern)\<close>; when \<open>file_pattern\<close> is \<open>None\<close> and \<open>location\<close>
  is non-empty the pattern is \<open>location\<close>; when \<open>file_pattern\<close> is non-empty and \<open>location\<close>
  is \<open>None\<close> or empty the pattern is \<open>file_pattern\<close>.
\<close>

theorem get_file_pattern_cases:
  "(get_file_pattern fp loc su = Inl KlioMissingConfiguration
      \<longleftrightarrow> \<not> truthy fp \<and> \<not> truthy loc)
   \<and> (\<forall>e. get_file_pattern fp loc su = Inl e \<longrightarrow> e = KlioMissingConfiguration)
   \<and> (truthy fp \<and> truthy loc \<longrightarrow>
        get_file_pattern fp loc su = Inr (Some (path_join (the loc) (the fp))))
   \<and> (fp = None \<and> truthy loc \<longrightarrow> get_file_pattern fp loc su = Inr loc)
   \<and> (truthy fp \<and> \<not> truthy loc \<longrightarrow> get_file_pattern fp loc su = Inr fp)"
  by (auto simp: get_file_pattern_def)

theorem get_file_pattern_cases_witness:
  "get_file_pattern (Some ''*.avro'') (Some ''gs://bucket/in'') False
     = Inr (Some ''gs://bucket/in/*.avro'')
   \<and> get_file_pattern None (Some ''gs://bucket/in'') False = Inr (Some ''gs://bucket/in'')
   \<and> get_file_pattern (Some ''*.avro'') None False = Inr (Some ''*.avro'')
   \<and> get_file_pattern None None False = Inl KlioMissingConfiguration"
  using get_file_pattern_cases [of "Some ''*.avro''" "Some ''gs://bucket/in''" False]
        get_file_pattern_cases [of None "Some ''gs://bucket/in''" False]
        get_file_pattern_cases [of "Some ''*.avro''" None False]
        get_file_pattern_cases [of None None False]
  by (simp add: path_join_def startswith_sep_def endswith_sep_def)

end
